theory Spec2Isabelle
  imports Complex_Main "HOL-Library.Sublist"
begin

section \<open>Python values\<close>

text \<open>
  Caller-supplied batch items are arbitrary JSON values (the tools take \<open>list\<close> and
  \<open>dict\<close> arguments); numbers are integers here, no property below looks inside one.
  A Python \<open>dict\<close> is an association list in insertion order; a lookup takes the
  first binding of a key.
\<close>

datatype json =
    JNull
  | JBool bool
  | JInt int
  | JStr string
  | JList "json list"
  | JDict "(string \<times> json) list"

definition dict_has :: "'k \<Rightarrow> ('k \<times> 'v) list \<Rightarrow> bool" where
  \<comment> \<open>\<open>k in d\<close>\<close>
  "dict_has k d = (map_of d k \<noteq> None)"

definition dict_get :: "('k \<times> json) list \<Rightarrow> 'k \<Rightarrow> json" where
  \<comment> \<open>\<open>d[k]\<close> for a key that is present, and \<open>d.get(k)\<close>: a missing key gives \<open>None\<close>\<close>
  "dict_get d k = (case map_of d k of None \<Rightarrow> JNull | Some v \<Rightarrow> v)"

definition dict_get_default :: "('k \<times> json) list \<Rightarrow> 'k \<Rightarrow> json \<Rightarrow> json" where
  \<comment> \<open>\<open>d.get(k, default)\<close>\<close>
  "dict_get_default d k dflt = (case map_of d k of None \<Rightarrow> dflt | Some v \<Rightarrow> v)"

fun dict_set :: "'k \<Rightarrow> 'v \<Rightarrow> ('k \<times> 'v) list \<Rightarrow> ('k \<times> 'v) list" where
  \<comment> \<open>\<open>d[k] = v\<close>: an existing key keeps its position, a new key goes last\<close>
  "dict_set k v [] = [(k, v)]"
| "dict_set k v ((k', v') # d) =
     (if k = k' then (k, v) # d else (k', v') # dict_set k v d)"

definition dict_keys :: "('k \<times> 'v) list \<Rightarrow> 'k list" where
  "dict_keys d = map fst d"

definition truthy :: "string option \<Rightarrow> bool" where
  \<comment> \<open>truth value of \<open>result.get("error")\<close> and of \<open>os.getenv(...)\<close>:
      \<open>None\<close> and the empty string are false\<close>
  "truthy s = (case s of None \<Rightarrow> False | Some t \<Rightarrow> t \<noteq> [])"

section \<open>Strings\<close>

text \<open>
  A Python \<open>str\<close> is modelled as a \<open>string\<close> whose characters are the code points
  0..255; \<open>py_isspace\<close> is \<open>str.isspace\<close> on that range.
\<close>

definition py_isspace :: "char \<Rightarrow> bool" where
  "py_isspace c =
     (let n = (of_char c :: nat)
      in (9 \<le> n \<and> n \<le> 13) \<or> (28 \<le> n \<and> n \<le> 32) \<or> n = 133 \<or> n = 160)"

definition py_strip :: "string \<Rightarrow> string" where
  \<comment> \<open>\<open>s.strip()\<close>\<close>
  "py_strip s = rev (dropWhile py_isspace (rev (dropWhile py_isspace s)))"

fun py_join :: "string \<Rightarrow> string list \<Rightarrow> string" where
  \<comment> \<open>\<open>sep.join(xs)\<close>\<close>
  "py_join sep [] = []"
| "py_join sep [x] = x"
| "py_join sep (x # y # ys) = x @ sep @ py_join sep (y # ys)"

definition py_slice_upto :: "int \<Rightarrow> 'a list \<Rightarrow> 'a list" where
  \<comment> \<open>\<open>xs[:n]\<close>: a negative bound counts from the end\<close>
  "py_slice_upto n xs =
     (if 0 \<le> n then take (nat n) xs else take (nat (int (length xs) + n)) xs)"

section \<open>Floats\<close>

text \<open>
  A float is a real number or NaN (arithmetic is the exact one: rounding error and
  infinities are left out, so a computed score or a rounded score can differ from the
  float64 one in its last digits; the statements below are about which candidates are
  kept, their order and their number, for whatever scores are computed). Every comparison with NaN is false, so a NaN score
  never passes \<open>similarity >= similarity_threshold\<close>.
\<close>

datatype pyfloat = NaN | Float real

definition py_round4 :: "real \<Rightarrow> real" where
  \<comment> \<open>\<open>round(x, 4)\<close>: to the nearest multiple of 0.0001, ties to even\<close>
  "py_round4 x =
     (let y = x * 10000; f = \<lfloor>y\<rfloor>; d = y - of_int f
      in of_int (if d < 1/2 then f else if 1/2 < d then f + 1
                 else if even f then f else f + 1) / 10000)"

section \<open>The two external services\<close>

datatype exn =
    ConnectionError
  | OpenAIError int string
  | AttributeError
  | KeyError
  | ValueError

datatype err =
    NoNotesProvided
  | NoUpdatesProvided
  | NoteNotADictionary nat
  | NoteMissingKeys nat
  | UpdateNotADictionary
  | UpdateMissingKeys
  | ConnectFailed int
  | AnkiError string
  | NoteNotFound json
  | ExceptionText exn
  | ApiKeyMissing
  | NoNotesInDeck string
  | FindFailed exn

text \<open>
  The error texts of the source, by constructor:
  \<^item> \<open>NoNotesProvided\<close>: "No notes provided"; \<open>NoUpdatesProvided\<close>: "No updates provided";
  \<^item> \<open>NoteNotADictionary n\<close>: "Note n is not a dictionary";
  \<^item> \<open>NoteMissingKeys n\<close>: "Note n missing required 'model_name' or 'fields'";
  \<^item> \<open>UpdateNotADictionary\<close>: "Update data is not a dictionary";
  \<^item> \<open>UpdateMissingKeys\<close>: "Missing required 'note_id' or 'fields'";
  \<^item> \<open>ConnectFailed s\<close>: "Failed to connect to Anki: s";
  \<^item> \<open>AnkiError e\<close>: the store's own error field;
  \<^item> \<open>NoteNotFound i\<close>: "Note with ID i not found";
  \<^item> \<open>ExceptionText e\<close>: \<open>str(e)\<close> of a caught exception;
  \<^item> \<open>ApiKeyMissing\<close>: "OpenAI API key not found. ...";
  \<^item> \<open>NoNotesInDeck d\<close>: "No notes found in deck 'd'";
  \<^item> \<open>FindFailed e\<close>: "Failed to find similar notes: " followed by \<open>str(e)\<close>.
\<close>

datatype 'a tool_result = Failure err | Success 'a

fun success :: "'a tool_result \<Rightarrow> bool" where
  "success (Failure e) = False"
| "success (Success r) = True"

record note_info =
  noteId :: int
  modelName :: string
  note_tags :: "string list"
  note_fields :: "(string \<times> string) list"

record anki_note =
  an_deckName :: string
  an_modelName :: json
  an_fields :: json
  an_tags :: json

record note_data =
  nd_id :: json
  nd_fields :: "(string \<times> json) list"
  nd_tags :: json

datatype call =
    FindNotes string
  | NotesInfo "json list"
  | AddNotes "anki_note list"
  | UpdateNoteFields note_data
  | Embeddings string

datatype 'r response = Raises | Response int "string option" 'r

datatype embed_response = EmbedRaises | EmbedResponse int string "real list"

text \<open>
  Every external call is appended to a log. The services are the environment: each
  answer is a function of the calls made so far and of the request, so a store with
  state of its own is covered. \<open>Raises\<close> is \<open>requests.post\<close> raising;
  \<open>Response status error result\<close> is an HTTP answer with its status code and the
  \<open>error\<close> and \<open>result\<close> members of its JSON body. A note the store does not know
  comes back from \<open>notesInfo\<close> as an empty object, here \<open>None\<close>.
\<close>

record env =
  OPENAI_API_KEY :: "string option"
  findNotes :: "call list \<Rightarrow> string \<Rightarrow> int list response"
  notesInfo :: "call list \<Rightarrow> json list \<Rightarrow> note_info option list response"
  addNotes :: "call list \<Rightarrow> anki_note list \<Rightarrow> int option list response"
  updateNoteFields :: "call list \<Rightarrow> note_data \<Rightarrow> unit response"
  embeddings :: "call list \<Rightarrow> string \<Rightarrow> embed_response"

section \<open>update_note\<close>

datatype update_result = Updated json "string list"

definition merge_fields :: "(string \<times> string) list \<Rightarrow> (string \<times> json) list \<Rightarrow> (string \<times> json) list" where
  \<comment> \<open>the two loops that build \<open>updated_fields\<close>\<close>
  "merge_fields current new =
     fold (\<lambda>(field_name, new_value) updated_fields. dict_set field_name new_value updated_fields) new
       (fold (\<lambda>(field_name, v) updated_fields. dict_set field_name (JStr v) updated_fields) current [])"

definition update_note ::
  "env \<Rightarrow> call list \<Rightarrow> json \<Rightarrow> json \<Rightarrow> json \<Rightarrow> (exn + update_result tool_result) \<times> call list" where
  "update_note e calls note_id new_fields new_tags =
     (let calls1 = calls @ [NotesInfo [note_id]] in
      case notesInfo e calls [note_id] of
        Raises \<Rightarrow> (Inl ConnectionError, calls1)
      | Response status error notes_info \<Rightarrow>
          if status \<noteq> 200 then (Inr (Failure (ConnectFailed status)), calls1)
          else if truthy error then (Inr (Failure (AnkiError (the error))), calls1)
          else (case notes_info of
              [] \<Rightarrow> (Inr (Failure (NoteNotFound note_id)), calls1)
            | None # _ \<Rightarrow> (Inr (Failure (NoteNotFound note_id)), calls1)
            | Some current_note # _ \<Rightarrow>
               (case new_fields of
                  JDict fs \<Rightarrow>
                    (let note_data = \<lparr> nd_id = note_id,
                           nd_fields = merge_fields (note_fields current_note) fs,
                           nd_tags = (if new_tags \<noteq> JNull then new_tags
                                      else JList (map JStr (note_tags current_note))) \<rparr>;
                         calls2 = calls1 @ [UpdateNoteFields note_data] in
                     case updateNoteFields e calls1 note_data of
                       Raises \<Rightarrow> (Inl ConnectionError, calls2)
                     | Response status2 error2 _ \<Rightarrow>
                         if status2 \<noteq> 200 then (Inr (Failure (ConnectFailed status2)), calls2)
                         else if truthy error2 then (Inr (Failure (AnkiError (the error2))), calls2)
                         else (Inr (Success (Updated note_id (dict_keys fs))), calls2))
                | _ \<Rightarrow> (Inl AttributeError, calls1))))"

section \<open>update_notes_bulk\<close>

record successful_update =
  su_note_id :: json
  su_updated_fields :: "string list"

record failed_update =
  fu_index :: nat
  fu_note_id :: "json option"
  fu_error :: err
  fu_data :: json

record batch_outcome =
  total_attempted :: nat
  successful_count :: nat
  failed_count :: nat

record update_outcome = batch_outcome +
  successful_updates :: "successful_update list"
  failed_updates :: "failed_update list"

type_synonym update_state = "call list \<times> successful_update list \<times> failed_update list"

definition update_step :: "env \<Rightarrow> nat \<Rightarrow> json \<Rightarrow> update_state \<Rightarrow> update_state" where
  \<comment> \<open>one iteration of the loop over \<open>enumerate(updates)\<close>\<close>
  "update_step e i update_data st =
     (case st of (calls, successful, failed) \<Rightarrow>
       (case update_data of
          JDict d \<Rightarrow>
            if \<not> dict_has ''note_id'' d \<or> \<not> dict_has ''fields'' d then
              (calls, successful,
               failed @ [\<lparr> fu_index = i, fu_note_id = None,
                           fu_error = UpdateMissingKeys, fu_data = update_data \<rparr>])
            else
              (case update_note e calls (dict_get d ''note_id'') (dict_get d ''fields'')
                      (dict_get d ''tags'') of
                 (Inr (Success (Updated nid updated_fields)), calls') \<Rightarrow>
                   (calls',
                    successful @ [\<lparr> su_note_id = dict_get d ''note_id'',
                                    su_updated_fields = updated_fields \<rparr>],
                    failed)
               | (Inr (Failure er), calls') \<Rightarrow>
                   (calls', successful,
                    failed @ [\<lparr> fu_index = i, fu_note_id = Some (dict_get d ''note_id''),
                                fu_error = er, fu_data = update_data \<rparr>])
               | (Inl ex, calls') \<Rightarrow>
                   (calls', successful,
                    failed @ [\<lparr> fu_index = i, fu_note_id = Some (dict_get d ''note_id''),
                                fu_error = ExceptionText ex, fu_data = update_data \<rparr>]))
        | _ \<Rightarrow>
            (calls, successful,
             failed @ [\<lparr> fu_index = i, fu_note_id = None,
                         fu_error = UpdateNotADictionary, fu_data = update_data \<rparr>])))"

fun update_loop :: "env \<Rightarrow> nat \<Rightarrow> json list \<Rightarrow> update_state \<Rightarrow> update_state" where
  "update_loop e i [] st = st"
| "update_loop e i (update_data # rest) st =
     update_loop e (Suc i) rest (update_step e i update_data st)"

definition update_notes_bulk ::
  "env \<Rightarrow> call list \<Rightarrow> json list \<Rightarrow> update_outcome tool_result \<times> call list" where
  "update_notes_bulk e calls updates =
     (if updates = [] then (Failure NoUpdatesProvided, calls)
      else (case update_loop e 0 updates (calls, [], []) of
              (calls', successful, failed) \<Rightarrow>
                (Success \<lparr> total_attempted = length updates,
                            successful_count = length successful,
                            failed_count = length failed,
                            successful_updates = successful,
                            failed_updates = failed \<rparr>,
                 calls')))"

section \<open>create_notes_bulk\<close>

record create_outcome = batch_outcome +
  note_ids :: "int option list"

fun prepare_notes :: "string \<Rightarrow> nat \<Rightarrow> json list \<Rightarrow> anki_note list \<Rightarrow> err + anki_note list" where
  \<comment> \<open>the loop that builds \<open>anki_notes\<close>; a malformed item returns from the whole call\<close>
  "prepare_notes deck_name i [] anki_notes = Inr anki_notes"
| "prepare_notes deck_name i (note_data # rest) anki_notes =
     (case note_data of
        JDict d \<Rightarrow>
          if \<not> dict_has ''model_name'' d \<or> \<not> dict_has ''fields'' d then
            Inl (NoteMissingKeys (i + 1))
          else
            prepare_notes deck_name (Suc i) rest
              (anki_notes @ [\<lparr> an_deckName = deck_name,
                                an_modelName = dict_get d ''model_name'',
                                an_fields = dict_get d ''fields'',
                                an_tags = dict_get_default d ''tags'' (JList []) \<rparr>])
      | _ \<Rightarrow> Inl (NoteNotADictionary (i + 1)))"

definition create_notes_bulk ::
  "env \<Rightarrow> call list \<Rightarrow> string \<Rightarrow> json list \<Rightarrow> (exn + create_outcome tool_result) \<times> call list" where
  "create_notes_bulk e calls deck_name notes_list =
     (if notes_list = [] then (Inr (Failure NoNotesProvided), calls)
      else (case prepare_notes deck_name 0 notes_list [] of
              Inl er \<Rightarrow> (Inr (Failure er), calls)
            | Inr anki_notes \<Rightarrow>
               (let calls1 = calls @ [AddNotes anki_notes] in
                case addNotes e calls anki_notes of
                  Raises \<Rightarrow> (Inl ConnectionError, calls1)
                | Response status error ids \<Rightarrow>
                    if status \<noteq> 200 then (Inr (Failure (ConnectFailed status)), calls1)
                    else if truthy error then (Inr (Failure (AnkiError (the error))), calls1)
                    else
                      (let successful_notes = filter (\<lambda>note_id. note_id \<noteq> None) ids;
                           failed = length (filter (\<lambda>note_id. note_id = None) ids)
                       in (Inr (Success \<lparr> total_attempted = length notes_list,
                                            successful_count = length successful_notes,
                                            failed_count = failed,
                                            note_ids = ids \<rparr>),
                           calls1)))))"

section \<open>find_similar_notes\<close>

definition get_text_embedding :: "env \<Rightarrow> call list \<Rightarrow> string \<Rightarrow> (exn + real list) \<times> call list" where
  "get_text_embedding e calls text =
     (let calls1 = calls @ [Embeddings text] in
      case embeddings e calls text of
        EmbedRaises \<Rightarrow> (Inl ConnectionError, calls1)
      | EmbedResponse status body embedding \<Rightarrow>
          if status \<noteq> 200 then (Inl (OpenAIError status body), calls1)
          else (Inr embedding, calls1))"

definition dot :: "real list \<Rightarrow> real list \<Rightarrow> real" where
  "dot vec1 vec2 = sum_list (map2 (*) vec1 vec2)"

definition norm2 :: "real list \<Rightarrow> real" where
  "norm2 vec = sqrt (sum_list (map (\<lambda>x. x * x) vec))"

definition cosine_similarity :: "real list \<Rightarrow> real list \<Rightarrow> exn + pyfloat" where
  \<comment> \<open>\<open>np.dot\<close> raises on vectors of different lengths; a zero norm gives 0/0\<close>
  "cosine_similarity vec1 vec2 =
     (if length vec1 \<noteq> length vec2 then Inl ValueError
      else if norm2 vec1 * norm2 vec2 = 0 then Inr NaN
      else Inr (Float (dot vec1 vec2 / (norm2 vec1 * norm2 vec2))))"

record similarity_item =
  item_note :: note_info
  similarity :: real
  combined_text :: string

definition combined_text_of :: "note_info \<Rightarrow> string" where
  "combined_text_of n =
     py_join '' '' (filter (\<lambda>v. py_strip v \<noteq> []) (map snd (note_fields n)))"

definition score_note ::
  "env \<Rightarrow> real list \<Rightarrow> real \<Rightarrow> note_info \<Rightarrow> call list \<Rightarrow> similarity_item option \<times> call list" where
  \<comment> \<open>the body of the loop over \<open>notes\<close>: the item to append, if any\<close>
  "score_note e search_embedding similarity_threshold n calls =
     (let combined = combined_text_of n in
      if py_strip combined = [] then (None, calls)
      else (case get_text_embedding e calls combined of
              (Inl ex, calls1) \<Rightarrow> (None, calls1)
            | (Inr note_embedding, calls1) \<Rightarrow>
               (case cosine_similarity search_embedding note_embedding of
                  Inl ex \<Rightarrow> (None, calls1)
                | Inr NaN \<Rightarrow> (None, calls1)
                | Inr (Float s) \<Rightarrow>
                    if similarity_threshold \<le> s then
                      (Some \<lparr> item_note = n, similarity = s, combined_text = combined \<rparr>,
                       calls1)
                    else (None, calls1))))"

fun collect_similarities ::
  "env \<Rightarrow> real list \<Rightarrow> real \<Rightarrow> note_info option list \<Rightarrow> call list \<Rightarrow> similarity_item list
     \<Rightarrow> (exn + similarity_item list) \<times> call list" where
  \<comment> \<open>\<open>note["fields"]\<close> of an empty note object raises KeyError\<close>
  "collect_similarities e q t [] calls similarities = (Inr similarities, calls)"
| "collect_similarities e q t (None # rest) calls similarities = (Inl KeyError, calls)"
| "collect_similarities e q t (Some n # rest) calls similarities =
     (case score_note e q t n calls of
        (None, calls1) \<Rightarrow> collect_similarities e q t rest calls1 similarities
      | (Some item, calls1) \<Rightarrow> collect_similarities e q t rest calls1 (similarities @ [item]))"

definition py_sort_reverse :: "('a \<Rightarrow> real) \<Rightarrow> 'a list \<Rightarrow> 'a list" where
  \<comment> \<open>\<open>xs.sort(key=f, reverse=True)\<close>: descending, and stable as Python's sort is\<close>
  "py_sort_reverse f xs = sort_key (\<lambda>x. - f x) xs"

definition score_candidates ::
  "env \<Rightarrow> call list \<Rightarrow> string \<Rightarrow> real \<Rightarrow> note_info option list
     \<Rightarrow> (exn + similarity_item list) \<times> call list" where
  \<comment> \<open>the embedding of the search text, then the loop: \<open>similarities\<close> before the sort\<close>
  "score_candidates e calls search_text similarity_threshold notes =
     (case get_text_embedding e calls search_text of
        (Inl ex, calls1) \<Rightarrow> (Inl ex, calls1)
      | (Inr search_embedding, calls1) \<Rightarrow>
          collect_similarities e search_embedding similarity_threshold notes calls1 [])"

definition top_results :: "int \<Rightarrow> similarity_item list \<Rightarrow> similarity_item list" where
  \<comment> \<open>\<open>similarities.sort(key=..., reverse=True)\<close>, then \<open>similarities[:max_results]\<close>\<close>
  "top_results max_results similarities =
     py_slice_upto max_results (py_sort_reverse similarity similarities)"

definition similarity_search ::
  "env \<Rightarrow> call list \<Rightarrow> string \<Rightarrow> real \<Rightarrow> int \<Rightarrow> note_info option list
     \<Rightarrow> (exn + similarity_item list) \<times> call list" where
  "similarity_search e calls search_text similarity_threshold max_results notes =
     (case score_candidates e calls search_text similarity_threshold notes of
        (Inl ex, calls2) \<Rightarrow> (Inl ex, calls2)
      | (Inr similarities, calls2) \<Rightarrow> (Inr (top_results max_results similarities), calls2))"

record formatted_note =
  fn_note_id :: int
  fn_model_name :: string
  fn_tags :: "string list"
  similarity_score :: real
  fn_fields :: "(string \<times> string) list"

definition format_note :: "similarity_item \<Rightarrow> formatted_note" where
  "format_note item =
     \<lparr> fn_note_id = noteId (item_note item),
       fn_model_name = modelName (item_note item),
       fn_tags = note_tags (item_note item),
       similarity_score = py_round4 (similarity item),
       fn_fields = fold (\<lambda>(field_name, v) d. dict_set field_name v d)
                     (note_fields (item_note item)) [] \<rparr>"

datatype find_outcome =
    NoSimilar real string string
  | Found string nat real string "formatted_note list"

text \<open>
  \<open>NoSimilar threshold search_text deck_name\<close> is the answer with \<open>found_count\<close> 0, the
  message "No notes found with similarity >= ..." and an empty \<open>notes\<close> list;
  \<open>Found search_text found_count similarity_threshold deck_name notes\<close> is the other.
\<close>

fun found_count :: "find_outcome \<Rightarrow> nat" where
  "found_count (NoSimilar t s d) = 0"
| "found_count (Found s n t d ns) = n"

fun result_notes :: "find_outcome \<Rightarrow> formatted_note list" where
  "result_notes (NoSimilar t s d) = []"
| "result_notes (Found s n t d ns) = ns"

definition deck_query :: "string \<Rightarrow> string" where
  "deck_query deck_name = ''deck:'' @ [CHR 0x22] @ deck_name @ [CHR 0x22]"

definition find_similar_notes ::
  "env \<Rightarrow> call list \<Rightarrow> string \<Rightarrow> string \<Rightarrow> real \<Rightarrow> int \<Rightarrow> find_outcome tool_result \<times> call list" where
  "find_similar_notes e calls deck_name search_text similarity_threshold max_results =
     (if \<not> truthy (OPENAI_API_KEY e) then (Failure ApiKeyMissing, calls)
      else
       (let calls1 = calls @ [FindNotes (deck_query deck_name)] in
        case findNotes e calls (deck_query deck_name) of
          Raises \<Rightarrow> (Failure (FindFailed ConnectionError), calls1)
        | Response status error ids \<Rightarrow>
            if status \<noteq> 200 then (Failure (ConnectFailed status), calls1)
            else if truthy error then (Failure (AnkiError (the error)), calls1)
            else if ids = [] then (Failure (NoNotesInDeck deck_name), calls1)
            else
             (let calls2 = calls1 @ [NotesInfo (map JInt ids)] in
              case notesInfo e calls1 (map JInt ids) of
                Raises \<Rightarrow> (Failure (FindFailed ConnectionError), calls2)
              | Response status2 error2 notes \<Rightarrow>
                  if status2 \<noteq> 200 then (Failure (ConnectFailed status2), calls2)
                  else if truthy error2 then (Failure (AnkiError (the error2)), calls2)
                  else
                   (case similarity_search e calls2 search_text similarity_threshold
                           max_results notes of
                      (Inl ex, calls3) \<Rightarrow> (Failure (FindFailed ex), calls3)
                    | (Inr similarities, calls3) \<Rightarrow>
                        if similarities = [] then
                          (Success (NoSimilar similarity_threshold search_text deck_name),
                           calls3)
                        else
                          (Success (Found search_text (length similarities)
                                      similarity_threshold deck_name
                                      (map format_note similarities)),
                           calls3)))))"

section \<open>The flattening rule, as the specification words it\<close>

fun spec_flatten :: "(string \<times> string) list \<Rightarrow> string" where
  \<comment> \<open>the values that are non-empty after trimming, in field order, a single space
      between two of them; the field names are not used\<close>
  "spec_flatten [] = []"
| "spec_flatten ((field_name, v) # rest) =
     (if py_strip v = [] then spec_flatten rest
      else if list_all (\<lambda>(field_name', v'). py_strip v' = []) rest then v
      else v @ '' '' @ spec_flatten rest)"

section \<open>A small collection, for concrete runs\<close>

definition demo_note :: "int \<Rightarrow> string \<Rightarrow> string \<Rightarrow> note_info" where
  "demo_note i front back =
     \<lparr> noteId = i, modelName = ''Basic'', note_tags = [''food''],
       note_fields = [(''Front'', front), (''Back'', back)] \<rparr>"

fun demo_lookup :: "json \<Rightarrow> note_info option" where
  "demo_lookup (JInt i) =
     (if i = 1 then Some (demo_note 1 ''apple pie'' ''sweet'')
      else if i = 2 then Some (demo_note 2 ''banana bread'' ''  '')
      else if i = 3 then Some (demo_note 3 ''apple tart'' [])
      else if i = 4 then Some (demo_note 4 '' '' [])
      else None)"
| "demo_lookup j = None"

definition demo_embedding :: "string \<Rightarrow> real list" where
  "demo_embedding text =
     (if text = ''banana bread'' then [0, 1, 0]
      else if text = ''car engine'' then [0, 0, 1]
      else [1, 0, 0])"

definition demo_env :: env where
  "demo_env =
     \<lparr> OPENAI_API_KEY = Some ''sk-demo'',
       findNotes = (\<lambda>calls query.
          if query = deck_query ''Demo'' then Response 200 None [1, 2, 3, 4]
          else Response 200 None []),
       notesInfo = (\<lambda>calls ids. Response 200 None (map demo_lookup ids)),
       addNotes = (\<lambda>calls ns.
          Response 200 None
            (map (\<lambda>n. if an_modelName n = JStr ''Basic'' then Some 42 else None) ns)),
       updateNoteFields = (\<lambda>calls nd. Response 200 None ()),
       embeddings = (\<lambda>calls text. EmbedResponse 200 [] (demo_embedding text)) \<rparr>"

definition basic_item :: "string \<Rightarrow> string \<Rightarrow> json" where
  "basic_item front back =
     JDict [(''model_name'', JStr ''Basic''),
            (''fields'', JDict [(''Front'', JStr front), (''Back'', JStr back)])]"

definition no_fields_item :: json where
  "no_fields_item = JDict [(''model_name'', JStr ''Basic'')]"

definition four_items :: "json list" where
  "four_items = [basic_item ''a'' ''b'', basic_item ''c'' ''d'', no_fields_item, basic_item ''e'' ''f'']"

definition mixed_items :: "json list" where
  "mixed_items =
     [basic_item ''a'' ''b'',
      JDict [(''model_name'', JStr ''Cloze''), (''fields'', JDict [])],
      basic_item ''c'' ''d'']"

definition mixed_anki_notes :: "anki_note list" where
  "mixed_anki_notes =
     [\<lparr> an_deckName = ''Demo'', an_modelName = JStr ''Basic'',
        an_fields = JDict [(''Front'', JStr ''a''), (''Back'', JStr ''b'')], an_tags = JList [] \<rparr>,
      \<lparr> an_deckName = ''Demo'', an_modelName = JStr ''Cloze'',
        an_fields = JDict [], an_tags = JList [] \<rparr>,
      \<lparr> an_deckName = ''Demo'', an_modelName = JStr ''Basic'',
        an_fields = JDict [(''Front'', JStr ''c''), (''Back'', JStr ''d'')], an_tags = JList [] \<rparr>]"















definition demo_notes :: "note_info option list" where
  "demo_notes = map demo_lookup [JInt 1, JInt 2, JInt 3, JInt 4]"

definition pie_item :: similarity_item where
  "pie_item = \<lparr> item_note = demo_note 1 ''apple pie'' ''sweet'', similarity = 1,
                 combined_text = ''apple pie sweet'' \<rparr>"

definition bread_item :: similarity_item where
  "bread_item = \<lparr> item_note = demo_note 2 ''banana bread'' ''  '', similarity = 0,
                   combined_text = ''banana bread'' \<rparr>"

definition tart_item :: similarity_item where
  "tart_item = \<lparr> item_note = demo_note 3 ''apple tart'' [], similarity = 1,
                  combined_text = ''apple tart'' \<rparr>"

definition demo_search_calls :: "call list" where
  "demo_search_calls =
     [Embeddings ''apple dessert'', Embeddings ''apple pie sweet'',
      Embeddings ''banana bread'', Embeddings ''apple tart'']"

definition car_search_calls :: "call list" where
  "car_search_calls =
     [FindNotes (deck_query ''Demo''), NotesInfo (map JInt [1, 2, 3, 4]),
      Embeddings ''car engine'', Embeddings ''apple pie sweet'',
      Embeddings ''banana bread'', Embeddings ''apple tart'']"

section \<open>Empty batches\<close>

text \<open>
  C10. Called with the empty list, \<open>create_notes_bulk\<close> and \<open>update_notes_bulk\<close> return an
  error result (\<open>success\<close> false, "No notes provided" and "No updates provided"),
  not an outcome with \<open>total_attempted\<close> 0; no external call is made.
\<close>

theorem empty_batch_is_error:
  "create_notes_bulk e calls deck_name [] = (Inr (Failure NoNotesProvided), calls) \<and>
   update_notes_bulk e calls [] = (Failure NoUpdatesProvided, calls) \<and>
   \<not> success (Failure NoNotesProvided :: create_outcome tool_result) \<and>
   \<not> success (Failure NoUpdatesProvided :: update_outcome tool_result)"
  by (simp add: create_notes_bulk_def update_notes_bulk_def)

theorem empty_batch_is_error_witness:
  "create_notes_bulk demo_env [] ''Demo'' [] = (Inr (Failure NoNotesProvided), []) \<and>
   update_notes_bulk demo_env [] [] = (Failure NoUpdatesProvided, [])"
  using empty_batch_is_error [of demo_env "[]" "''Demo''"] by blast

section \<open>Validation in create_notes_bulk\<close>

lemma prepare_notes_malformed:
  "k < length ns \<Longrightarrow> ns ! k = JDict d \<Longrightarrow>
   \<not> dict_has ''model_name'' d \<or> \<not> dict_has ''fields'' d \<Longrightarrow>
   \<exists>er. prepare_notes deck_name i ns acc = Inl er"
proof (induction ns arbitrary: i acc k)
  case Nil
  then show ?case by simp
next
  case (Cons n ns)
  show ?case
  proof (cases k)
    case 0
    with Cons.prems show ?thesis by auto
  next
    case (Suc k')
    with Cons.prems have "\<exists>er. prepare_notes deck_name (Suc i) ns acc' = Inl er" for acc'
      using Cons.IH [of k' "Suc i" acc'] by simp
    then show ?thesis by (auto split: json.splits)
  qed
qed

lemma prepare_notes_first_malformed:
  "k < length ns \<Longrightarrow> ns ! k = JDict d \<Longrightarrow>
   \<not> dict_has ''model_name'' d \<or> \<not> dict_has ''fields'' d \<Longrightarrow>
   \<forall>j<k. \<exists>d'. ns ! j = JDict d' \<and> dict_has ''model_name'' d' \<and> dict_has ''fields'' d' \<Longrightarrow>
   prepare_notes deck_name i ns acc = Inl (NoteMissingKeys (i + k + 1))"
proof (induction ns arbitrary: i acc k)
  case Nil
  then show ?case by simp
next
  case (Cons n ns)
  show ?case
  proof (cases k)
    case 0
    with Cons.prems show ?thesis by auto
  next
    case (Suc k')
    from Cons.prems(4) Suc obtain d0 where
      d0: "n = JDict d0" "dict_has ''model_name'' d0" "dict_has ''fields'' d0"
      by fastforce
    have rest: "\<forall>j<k'. \<exists>d'. ns ! j = JDict d' \<and> dict_has ''model_name'' d' \<and> dict_has ''fields'' d'"
      using Cons.prems(4) Suc by (metis Suc_less_eq nth_Cons_Suc)
    have "prepare_notes deck_name (Suc i) ns acc' = Inl (NoteMissingKeys (Suc i + k' + 1))" for acc'
      using Cons.IH [of k' "Suc i" acc'] Cons.prems(1,2,3) Suc rest by simp
    with d0 Suc show ?thesis by simp
  qed
qed

text \<open>
  C1, as amended. When some item of a non-empty \<open>notes_list\<close> is a dictionary without
  \<open>model_name\<close> or without \<open>fields\<close>, \<open>create_notes_bulk\<close> returns one error result for the
  whole call (\<open>success\<close> false) and makes no call to the store: no sibling item is
  created. When every earlier item is well formed the error names that item by its
  position counted from 1.
\<close>

theorem create_notes_bulk_malformed_item:
  assumes "k < length notes_list"
    and "notes_list ! k = JDict d"
    and "\<not> dict_has ''model_name'' d \<or> \<not> dict_has ''fields'' d"
  shows "\<exists>er. create_notes_bulk e calls deck_name notes_list = (Inr (Failure er), calls) \<and>
           ((\<forall>j<k. \<exists>d'. notes_list ! j = JDict d' \<and> dict_has ''model_name'' d' \<and>
                 dict_has ''fields'' d')
             \<longrightarrow> er = NoteMissingKeys (k + 1))"
proof -
  from assms(1) have ne: "notes_list \<noteq> []" by auto
  from prepare_notes_malformed [OF assms] obtain er
    where er: "prepare_notes deck_name 0 notes_list [] = Inl er" by blast
  have "create_notes_bulk e calls deck_name notes_list = (Inr (Failure er), calls)"
    using ne er by (simp add: create_notes_bulk_def)
  moreover have "er = NoteMissingKeys (k + 1)"
    if "\<forall>j<k. \<exists>d'. notes_list ! j = JDict d' \<and> dict_has ''model_name'' d' \<and>
                 dict_has ''fields'' d'"
    using prepare_notes_first_malformed [OF assms that, of deck_name 0 "[]"] er by simp
  ultimately show ?thesis by blast
qed

theorem create_notes_bulk_malformed_item_witness:
  "create_notes_bulk demo_env [] ''Demo'' four_items = (Inr (Failure (NoteMissingKeys 3)), [])"
proof -
  have k: "2 < length four_items" by (simp add: four_items_def)
  have d: "four_items ! 2 = JDict [(''model_name'', JStr ''Basic'')]"
    by (simp add: four_items_def no_fields_item_def)
  have m: "\<not> dict_has ''model_name'' [(''model_name'', JStr ''Basic'')] \<or>
           \<not> dict_has ''fields'' [(''model_name'', JStr ''Basic'')]"
    by (simp add: dict_has_def)
  have ok: "\<forall>j<2. \<exists>d'. four_items ! j = JDict d' \<and> dict_has ''model_name'' d' \<and>
                 dict_has ''fields'' d'"
    by (simp add: four_items_def basic_item_def dict_has_def less_Suc_eq numeral_2_eq_2)
  from create_notes_bulk_malformed_item [OF k d m, of demo_env "[]" "''Demo''"] ok
  show ?thesis by auto
qed

theorem create_notes_bulk_one_malformed_counterexample:
  "create_notes_bulk demo_env [] ''Demo'' four_items = (Inr (Failure (NoteMissingKeys 3)), [])"
  by (simp add: create_notes_bulk_def four_items_def basic_item_def no_fields_item_def dict_has_def)

section \<open>An empty deck\<close>

text \<open>
  C2, as amended. When the key is set and \<open>findNotes\<close> answers with an empty list
  (an empty or unknown deck), \<open>find_similar_notes\<close> returns an error result:
  \<open>success\<close> false with the explicit error "No notes found in deck '...'". No note is
  fetched and no embedding is requested.
\<close>

theorem find_similar_notes_empty_deck:
  assumes "truthy (OPENAI_API_KEY e)"
    and "findNotes e calls (deck_query deck_name) = Response 200 er []"
    and "\<not> truthy er"
  shows "find_similar_notes e calls deck_name search_text similarity_threshold max_results =
           (Failure (NoNotesInDeck deck_name), calls @ [FindNotes (deck_query deck_name)])"
  using assms by (simp add: find_similar_notes_def)

theorem find_similar_notes_empty_deck_witness:
  "truthy (OPENAI_API_KEY demo_env) \<and>
   findNotes demo_env [] (deck_query ''Empty'') = Response 200 None [] \<and>
   find_similar_notes demo_env [] ''Empty'' ''apple'' 0.7 10 =
     (Failure (NoNotesInDeck ''Empty''), [FindNotes (deck_query ''Empty'')])"
proof -
  have k: "truthy (OPENAI_API_KEY demo_env)" by (simp add: demo_env_def truthy_def)
  have f: "findNotes demo_env [] (deck_query ''Empty'') = Response 200 None []"
    by (simp add: demo_env_def deck_query_def)
  have n: "\<not> truthy None" by (simp add: truthy_def)
  from find_similar_notes_empty_deck [OF k f n, of "''apple''" "0.7" 10] k f
  show ?thesis by simp
qed

theorem find_similar_notes_empty_deck_counterexample:
  "\<not> success (fst (find_similar_notes demo_env [] ''Empty'' ''apple'' 0.7 10))"
  by (simp add: find_similar_notes_def demo_env_def truthy_def deck_query_def)

section \<open>The merge of update_note\<close>

lemma map_of_dict_set: "map_of (dict_set k v d) = (map_of d)(k \<mapsto> v)"
  by (induction d) auto

lemma map_of_fold_dict_set_other:
  "k \<notin> fst ` set new \<Longrightarrow>
   map_of (fold (\<lambda>(field_name, new_value) d. dict_set field_name new_value d) new acc) k =
   map_of acc k"
  by (induction new arbitrary: acc) (auto simp: map_of_dict_set)

lemma map_of_fold_dict_set_current:
  "distinct (map fst current) \<Longrightarrow>
   map_of (fold (\<lambda>(field_name, v) d. dict_set field_name (f v) d) current acc) k =
   (case map_of current k of None \<Rightarrow> map_of acc k | Some v \<Rightarrow> Some (f v))"
proof (induction current arbitrary: acc)
  case Nil
  then show ?case by simp
next
  case (Cons p current)
  obtain k' v' where p: "p = (k', v')" by (cases p)
  from Cons.prems p have notin: "map_of current k' = None"
    by (simp add: map_of_eq_None_iff)
  from Cons.prems have "distinct (map fst current)" by simp
  from Cons.IH [OF this, of "dict_set k' (f v') acc"] p notin
  show ?case by (auto simp: map_of_dict_set split: option.splits)
qed

lemma merge_fields_unmentioned:
  assumes "distinct (map fst current)" and "\<not> dict_has k new"
  shows "map_of (merge_fields current new) k = map_option JStr (map_of current k)"
proof -
  from assms(2) have "k \<notin> fst ` set new"
    by (simp add: dict_has_def map_of_eq_None_iff)
  then show ?thesis
    unfolding merge_fields_def
    by (simp add: map_of_fold_dict_set_other map_of_fold_dict_set_current [OF assms(1)]
          split: option.splits)
qed

text \<open>
  C3. Let the store answer the \<open>notesInfo\<close> request of an update with the note
  \<open>current\<close> (a dictionary: each field name once). If the update succeeds, then exactly
  one \<open>updateNoteFields\<close> request was sent; in it every field name that the caller's
  \<open>fields\<close> does not mention has the value it has in \<open>current\<close> (and a name that
  \<open>current\<close> does not have is not added), and the tags are the caller's when given and
  those of \<open>current\<close> otherwise.
\<close>

theorem update_note_merges_fields:
  assumes "notesInfo e calls [note_id] = Response 200 er (Some current # others)"
    and "distinct (map fst (note_fields current))"
    and "update_note e calls note_id new_fields new_tags = (Inr (Success r), calls')"
  shows "\<exists>fs sent. new_fields = JDict fs \<and>
           calls' = calls @ [NotesInfo [note_id], UpdateNoteFields sent] \<and>
           nd_id sent = note_id \<and>
           (\<forall>field_name. \<not> dict_has field_name fs \<longrightarrow>
              map_of (nd_fields sent) field_name =
              map_option JStr (map_of (note_fields current) field_name)) \<and>
           nd_tags sent = (if new_tags \<noteq> JNull then new_tags
                           else JList (map JStr (note_tags current)))"
proof (cases new_fields)
  case (JDict fs)
  let ?sent = "\<lparr> nd_id = note_id, nd_fields = merge_fields (note_fields current) fs,
                  nd_tags = (if new_tags \<noteq> JNull then new_tags
                             else JList (map JStr (note_tags current))) \<rparr>"
  from assms(1,3) JDict
  have "calls' = calls @ [NotesInfo [note_id], UpdateNoteFields ?sent]"
    by (auto simp: update_note_def Let_def split: if_splits response.splits)
  moreover have "\<forall>field_name. \<not> dict_has field_name fs \<longrightarrow>
      map_of (nd_fields ?sent) field_name =
      map_option JStr (map_of (note_fields current) field_name)"
    using merge_fields_unmentioned [OF assms(2)] by simp
  ultimately show ?thesis using JDict
    by (intro exI [of _ fs] exI [of _ ?sent]) simp
qed (use assms(1,3) in \<open>auto simp: update_note_def Let_def split: if_splits\<close>)

theorem update_note_merges_fields_witness:
  "notesInfo demo_env [] [JInt 1] = Response 200 None [Some (demo_note 1 ''apple pie'' ''sweet'')] \<and>
   distinct (map fst (note_fields (demo_note 1 ''apple pie'' ''sweet''))) \<and>
   update_note demo_env [] (JInt 1) (JDict [(''Back'', JStr ''tasty'')]) JNull =
     (Inr (Success (Updated (JInt 1) [''Back''])),
      [NotesInfo [JInt 1],
       UpdateNoteFields \<lparr> nd_id = JInt 1,
         nd_fields = [(''Front'', JStr ''apple pie''), (''Back'', JStr ''tasty'')],
         nd_tags = JList [JStr ''food''] \<rparr>]) \<and>
   (\<exists>sent. [NotesInfo [JInt 1],
       UpdateNoteFields \<lparr> nd_id = JInt 1,
         nd_fields = [(''Front'', JStr ''apple pie''), (''Back'', JStr ''tasty'')],
         nd_tags = JList [JStr ''food''] \<rparr>] = [NotesInfo [JInt 1], UpdateNoteFields sent] \<and>
      map_of (nd_fields sent) ''Front'' = Some (JStr ''apple pie'') \<and>
      nd_tags sent = JList [JStr ''food''])"
proof -
  have h1: "notesInfo demo_env [] [JInt 1] =
              Response 200 None (Some (demo_note 1 ''apple pie'' ''sweet'') # [])"
    by (simp add: demo_env_def)
  have h2: "distinct (map fst (note_fields (demo_note 1 ''apple pie'' ''sweet'')))"
    by (simp add: demo_note_def)
  have h3: "update_note demo_env [] (JInt 1) (JDict [(''Back'', JStr ''tasty'')]) JNull =
     (Inr (Success (Updated (JInt 1) [''Back''])),
      [NotesInfo [JInt 1],
       UpdateNoteFields \<lparr> nd_id = JInt 1,
         nd_fields = [(''Front'', JStr ''apple pie''), (''Back'', JStr ''tasty'')],
         nd_tags = JList [JStr ''food''] \<rparr>])"
    by (simp add: update_note_def demo_env_def demo_note_def truthy_def merge_fields_def
          dict_keys_def)
  have front: "\<not> dict_has ''Front'' [(''Back'', JStr ''tasty'')]"
    by (simp add: dict_has_def)
  from update_note_merges_fields [OF h1 h2 h3] obtain fs sent where
    s: "JDict [(''Back'', JStr ''tasty'')] = JDict fs"
       "[NotesInfo [JInt 1],
         UpdateNoteFields \<lparr> nd_id = JInt 1,
           nd_fields = [(''Front'', JStr ''apple pie''), (''Back'', JStr ''tasty'')],
           nd_tags = JList [JStr ''food''] \<rparr>] = [] @ [NotesInfo [JInt 1], UpdateNoteFields sent]"
       "\<forall>field_name. \<not> dict_has field_name fs \<longrightarrow>
              map_of (nd_fields sent) field_name =
              map_option JStr (map_of (note_fields (demo_note 1 ''apple pie'' ''sweet'')) field_name)"
       "nd_tags sent = (if JNull \<noteq> JNull then JNull
                           else JList (map JStr (note_tags (demo_note 1 ''apple pie'' ''sweet''))))"
    by blast
  from s(1) have fs: "fs = [(''Back'', JStr ''tasty'')]" by simp
  from s(3) front fs have "map_of (nd_fields sent) ''Front'' = Some (JStr ''apple pie'')"
    by (simp add: demo_note_def)
  moreover from s(4) have "nd_tags sent = JList [JStr ''food'']" by (simp add: demo_note_def)
  ultimately show ?thesis using h1 h2 h3 s(2) by auto
qed

section \<open>Counting in create_notes_bulk\<close>

lemma length_filter_by_index:
  "length (filter (\<lambda>i. P (xs ! i)) [0..<length xs]) = length (filter P xs)"
proof -
  have "length (filter P (map ((!) xs) [0..<length xs])) =
        length (filter (\<lambda>i. P (xs ! i)) [0..<length xs])"
    by (simp only: length_filter_map o_def)
  then show ?thesis by (simp add: map_nth)
qed


lemma prepare_notes_shape:
  "prepare_notes deck_name i ns acc = Inr anki_notes \<Longrightarrow>
   length anki_notes = length acc + length ns \<and>
   (\<forall>j<length acc. anki_notes ! j = acc ! j) \<and>
   (\<forall>j<length ns. \<exists>d. ns ! j = JDict d \<and>
       dict_has ''model_name'' d \<and> dict_has ''fields'' d \<and>
       anki_notes ! (length acc + j) =
         \<lparr> an_deckName = deck_name, an_modelName = dict_get d ''model_name'',
           an_fields = dict_get d ''fields'',
           an_tags = dict_get_default d ''tags'' (JList []) \<rparr>)"
proof (induction ns arbitrary: i acc)
  case Nil
  then show ?case by simp
next
  case (Cons n ns)
  from Cons.prems obtain d where d: "n = JDict d" "dict_has ''model_name'' d"
      "dict_has ''fields'' d"
    by (cases n) (simp_all split: if_splits)
  define a where "a = \<lparr> an_deckName = deck_name, an_modelName = dict_get d ''model_name'',
            an_fields = dict_get d ''fields'',
            an_tags = dict_get_default d ''tags'' (JList []) \<rparr>"
  from Cons.prems d have "prepare_notes deck_name (Suc i) ns (acc @ [a]) = Inr anki_notes"
    by (simp add: a_def)
  from Cons.IH [OF this] have
    len: "length anki_notes = Suc (length acc) + length ns" and
    pre: "\<forall>j<Suc (length acc). anki_notes ! j = (acc @ [a]) ! j" and
    rest: "\<forall>j<length ns. \<exists>d. ns ! j = JDict d \<and>
       dict_has ''model_name'' d \<and> dict_has ''fields'' d \<and>
       anki_notes ! (Suc (length acc) + j) =
         \<lparr> an_deckName = deck_name, an_modelName = dict_get d ''model_name'',
           an_fields = dict_get d ''fields'',
           an_tags = dict_get_default d ''tags'' (JList []) \<rparr>"
    by simp_all
  from pre have hd: "anki_notes ! length acc = a" by (simp add: nth_append)
  from pre have pre': "\<forall>j<length acc. anki_notes ! j = acc ! j"
    by (simp add: nth_append)
  have step: "\<exists>d. (n # ns) ! j = JDict d \<and>
       dict_has ''model_name'' d \<and> dict_has ''fields'' d \<and>
       anki_notes ! (length acc + j) =
         \<lparr> an_deckName = deck_name, an_modelName = dict_get d ''model_name'',
           an_fields = dict_get d ''fields'',
           an_tags = dict_get_default d ''tags'' (JList []) \<rparr>" if j: "j < length (n # ns)" for j
  proof (cases j)
    case 0
    with d hd show ?thesis by (simp add: a_def)
  next
    case (Suc j')
    with j have "j' < length ns" by simp
    with rest Suc show ?thesis by simp
  qed
  from len pre' step show ?case by simp
qed

lemma create_notes_bulk_answer:
  assumes "notes_list \<noteq> []"
    and "prepare_notes deck_name 0 notes_list [] = Inr anki_notes"
    and "addNotes e calls anki_notes = Response 200 er ids"
    and "\<not> truthy er"
  shows "create_notes_bulk e calls deck_name notes_list =
     (Inr (Success \<lparr> total_attempted = length notes_list,
                     successful_count = length (filter (\<lambda>note_id. note_id \<noteq> None) ids),
                     failed_count = length (filter (\<lambda>note_id. note_id = None) ids),
                     note_ids = ids \<rparr>),
      calls @ [AddNotes anki_notes])"
  using assms by (simp add: create_notes_bulk_def)


text \<open>
  C8. When every item is well formed (the request \<open>anki_notes\<close> is built, one note per
  item and in the order of the items) and the store answers \<open>addNotes\<close> with status 200,
  no error and the identifiers \<open>ids\<close>, the call returns an outcome in which
  \<open>successful_count\<close> is the number of positions of \<open>ids\<close> that hold an identifier and
  \<open>failed_count\<close> the number of positions that hold null; \<open>note_ids\<close> is \<open>ids\<close> itself.
  No exception is involved in a null identifier.
\<close>

theorem create_notes_bulk_counts_identifiers:
  assumes "notes_list \<noteq> []"
    and "prepare_notes deck_name 0 notes_list [] = Inr anki_notes"
    and "addNotes e calls anki_notes = Response 200 er ids"
    and "\<not> truthy er"
  shows "create_notes_bulk e calls deck_name notes_list =
     (Inr (Success \<lparr> total_attempted = length notes_list,
                     successful_count = length (filter (\<lambda>i. ids ! i \<noteq> None) [0..<length ids]),
                     failed_count = length (filter (\<lambda>i. ids ! i = None) [0..<length ids]),
                     note_ids = ids \<rparr>),
      calls @ [AddNotes anki_notes]) \<and>
     length anki_notes = length notes_list \<and>
     (\<forall>i<length notes_list. \<exists>d. notes_list ! i = JDict d \<and>
         an_modelName (anki_notes ! i) = dict_get d ''model_name'' \<and>
         an_fields (anki_notes ! i) = dict_get d ''fields'')"
proof -
  note shape = prepare_notes_shape [OF assms(2)]
  have "\<exists>d. notes_list ! i = JDict d \<and>
         an_modelName (anki_notes ! i) = dict_get d ''model_name'' \<and>
         an_fields (anki_notes ! i) = dict_get d ''fields''" if "i < length notes_list" for i
  proof -
    from shape that obtain d where "notes_list ! i = JDict d"
      "anki_notes ! (length ([]::anki_note list) + i) =
         \<lparr> an_deckName = deck_name, an_modelName = dict_get d ''model_name'',
           an_fields = dict_get d ''fields'',
           an_tags = dict_get_default d ''tags'' (JList []) \<rparr>"
      by blast
    then show ?thesis by simp
  qed
  moreover from shape have "length anki_notes = length notes_list" by simp
  moreover have "length (filter (\<lambda>i. ids ! i \<noteq> None) [0..<length ids]) =
      length (filter (\<lambda>note_id. note_id \<noteq> None) ids)"
    by (rule length_filter_by_index)
  moreover have "length (filter (\<lambda>i. ids ! i = None) [0..<length ids]) =
      length (filter (\<lambda>note_id. note_id = None) ids)"
    by (rule length_filter_by_index)
  ultimately show ?thesis
    using create_notes_bulk_answer [OF assms] by (simp only: simp_thms) blast
qed

lemma mixed_prepare: "prepare_notes ''Demo'' 0 mixed_items [] = Inr mixed_anki_notes"
  by (simp add: mixed_items_def mixed_anki_notes_def basic_item_def dict_has_def dict_get_def
        dict_get_default_def)

lemma mixed_answer:
  "addNotes demo_env [] mixed_anki_notes = Response 200 None [Some 42, None, Some 42]"
  by (simp add: demo_env_def mixed_anki_notes_def)

theorem create_notes_bulk_counts_identifiers_witness:
  "mixed_items \<noteq> [] \<and>
   prepare_notes ''Demo'' 0 mixed_items [] = Inr mixed_anki_notes \<and>
   addNotes demo_env [] mixed_anki_notes = Response 200 None [Some 42, None, Some 42] \<and>
   \<not> truthy None \<and>
   create_notes_bulk demo_env [] ''Demo'' mixed_items =
     (Inr (Success \<lparr> total_attempted = 3, successful_count = 2, failed_count = 1,
                     note_ids = [Some 42, None, Some 42] \<rparr>),
      [AddNotes mixed_anki_notes])"
proof -
  have ne: "mixed_items \<noteq> []" by (simp add: mixed_items_def)
  have nt: "\<not> truthy None" by (simp add: truthy_def)
  have len: "length mixed_items = 3" by (simp add: mixed_items_def)
  have up: "[0..<3] = [0, 1, 2]" by (simp add: upt_rec)
  from create_notes_bulk_counts_identifiers [OF ne mixed_prepare mixed_answer nt]
  have "create_notes_bulk demo_env [] ''Demo'' mixed_items =
     (Inr (Success \<lparr> total_attempted = 3, successful_count = 2, failed_count = 1,
                     note_ids = [Some 42, None, Some 42] \<rparr>),
      [AddNotes mixed_anki_notes])"
    by (simp add: len up)
  with ne mixed_prepare mixed_answer nt show ?thesis by simp
qed

section \<open>The loop of update_notes_bulk\<close>

























section \<open>The flattened text\<close>

lemma py_join_Cons:
  "py_join sep (x # xs) = (if xs = [] then x else x @ sep @ py_join sep xs)"
  by (cases xs) simp_all

lemma all_blank_iff:
  "list_all (\<lambda>(field_name, v). py_strip v = []) fs \<longleftrightarrow>
   filter (\<lambda>v. py_strip v \<noteq> []) (map snd fs) = []"
  by (induction fs) (auto simp: filter_empty_conv)

lemma join_kept_values:
  "py_join '' '' (filter (\<lambda>v. py_strip v \<noteq> []) (map snd fs)) = spec_flatten fs"
proof (induction fs)
  case Nil
  show ?case by simp
next
  case (Cons p fs)
  obtain k v where p: "p = (k, v)" by (cases p)
  show ?case
    using Cons.IH all_blank_iff [of fs] by (simp add: p py_join_Cons)
qed

lemma combined_text_is_spec_flatten: "combined_text_of n = spec_flatten (note_fields n)"
  by (simp add: combined_text_of_def join_kept_values)

section \<open>The loop over the candidates\<close>

lemma get_text_embedding_calls:
  "get_text_embedding e calls text = (r, calls') \<Longrightarrow> calls' = calls @ [Embeddings text]"
  by (auto simp: get_text_embedding_def Let_def split: embed_response.splits if_splits)

lemma score_note_calls:
  "score_note e q t n calls = (r, calls') \<Longrightarrow>
   calls' = (if py_strip (combined_text_of n) = [] then calls
             else calls @ [Embeddings (combined_text_of n)])"
proof (cases "py_strip (combined_text_of n) = []")
  case True
  assume "score_note e q t n calls = (r, calls')"
  with True show ?thesis by (simp add: score_note_def)
next
  case False
  assume s: "score_note e q t n calls = (r, calls')"
  obtain r1 c1 where g: "get_text_embedding e calls (combined_text_of n) = (r1, c1)"
    by (cases "get_text_embedding e calls (combined_text_of n)") auto
  from get_text_embedding_calls [OF g] have c1: "c1 = calls @ [Embeddings (combined_text_of n)]" .
  from s False g have "calls' = c1"
    by (auto simp: score_note_def Let_def split: sum.splits pyfloat.splits if_splits)
  with c1 False show ?thesis by simp
qed

lemma score_note_item:
  "score_note e q t n calls = (Some item, calls') \<Longrightarrow>
   item_note item = n \<and> t \<le> similarity item \<and>
   combined_text item = combined_text_of n \<and> py_strip (combined_text_of n) \<noteq> []"
  by (auto simp: score_note_def Let_def
        split: sum.splits pyfloat.splits if_splits prod.splits)

lemma collect_similarities_Inr:
  "collect_similarities e q t cands calls sims = (Inr out, calls') \<Longrightarrow>
   calls' = calls @ map Embeddings
              (filter (\<lambda>txt. py_strip txt \<noteq> []) (map (\<lambda>n. combined_text_of (the n)) cands)) \<and>
   (\<exists>new. out = sims @ new \<and> subseq (map (\<lambda>x. Some (item_note x)) new) cands \<and>
      (\<forall>x\<in>set new. t \<le> similarity x \<and> combined_text x = combined_text_of (item_note x) \<and>
         py_strip (combined_text_of (item_note x)) \<noteq> []))"
proof (induction cands arbitrary: calls sims)
  case Nil
  then show ?case by simp
next
  case (Cons a cands)
  show ?case
  proof (cases a)
    case None
    with Cons.prems show ?thesis by simp
  next
    case (Some n)
    obtain r c1 where sc: "score_note e q t n calls = (r, c1)"
      by (cases "score_note e q t n calls") auto
    note c1 = score_note_calls [OF sc]
    show ?thesis
    proof (cases r)
      case None
      with Cons.prems Some sc
      have "collect_similarities e q t cands c1 sims = (Inr out, calls')" by simp
      from Cons.IH [OF this] obtain new where
        n: "calls' = c1 @ map Embeddings
              (filter (\<lambda>txt. py_strip txt \<noteq> []) (map (\<lambda>n. combined_text_of (the n)) cands))"
           "out = sims @ new" "subseq (map (\<lambda>x. Some (item_note x)) new) cands"
           "\<forall>x\<in>set new. t \<le> similarity x \<and> combined_text x = combined_text_of (item_note x) \<and>
              py_strip (combined_text_of (item_note x)) \<noteq> []"
        by blast
      from n(3) have "subseq (map (\<lambda>x. Some (item_note x)) new) (a # cands)"
        by (rule list_emb_Cons)
      with n(1,2,4) c1 Some show ?thesis by auto
    next
      case (Some item)
      note it = score_note_item [OF sc [unfolded Some]]
      from Cons.prems \<open>a = Some n\<close> sc Some
      have "collect_similarities e q t cands c1 (sims @ [item]) = (Inr out, calls')" by simp
      from Cons.IH [OF this] obtain new where
        n: "calls' = c1 @ map Embeddings
              (filter (\<lambda>txt. py_strip txt \<noteq> []) (map (\<lambda>n. combined_text_of (the n)) cands))"
           "out = (sims @ [item]) @ new" "subseq (map (\<lambda>x. Some (item_note x)) new) cands"
           "\<forall>x\<in>set new. t \<le> similarity x \<and> combined_text x = combined_text_of (item_note x) \<and>
              py_strip (combined_text_of (item_note x)) \<noteq> []"
        by blast
      from n(3) it \<open>a = Some n\<close>
      have "subseq (map (\<lambda>x. Some (item_note x)) (item # new)) (a # cands)" by simp
      moreover from n(2) have "out = sims @ item # new" by simp
      moreover from n(4) it have
        "\<forall>x\<in>set (item # new). t \<le> similarity x \<and>
           combined_text x = combined_text_of (item_note x) \<and>
           py_strip (combined_text_of (item_note x)) \<noteq> []"
        by simp
      moreover from n(1) c1 it \<open>a = Some n\<close> have
        "calls' = calls @ map Embeddings
              (filter (\<lambda>txt. py_strip txt \<noteq> [])
                 (map (\<lambda>n. combined_text_of (the n)) (a # cands)))"
        by simp
      ultimately show ?thesis by blast
    qed
  qed
qed

lemma score_candidates_Inr:
  assumes "score_candidates e calls search_text t notes = (Inr cleared, calls')"
  shows "calls' = calls @ Embeddings search_text # map Embeddings
              (filter (\<lambda>txt. py_strip txt \<noteq> []) (map (\<lambda>n. combined_text_of (the n)) notes)) \<and>
         subseq (map (\<lambda>x. Some (item_note x)) cleared) notes \<and>
         (\<forall>x\<in>set cleared. t \<le> similarity x \<and>
            combined_text x = combined_text_of (item_note x) \<and>
            py_strip (combined_text_of (item_note x)) \<noteq> [])"
proof -
  obtain r c1 where g: "get_text_embedding e calls search_text = (r, c1)"
    by (cases "get_text_embedding e calls search_text") auto
  note c1 = get_text_embedding_calls [OF g]
  from assms g obtain q where q: "r = Inr q"
    by (cases r) (simp_all add: score_candidates_def)
  from assms g q have "collect_similarities e q t notes c1 [] = (Inr cleared, calls')"
    by (simp add: score_candidates_def)
  from collect_similarities_Inr [OF this] c1 show ?thesis by auto
qed

section \<open>Sorting and truncating\<close>

lemma py_slice_upto_take: "\<exists>n. py_slice_upto m xs = take n xs"
  by (auto simp: py_slice_upto_def)

lemma sorted_py_sort_reverse:
  "sorted_wrt (\<lambda>a b. f b \<le> f a) (py_sort_reverse f xs)"
proof -
  have "sorted (map (\<lambda>x. - f x) (sort_key (\<lambda>x. - f x) xs))" by (rule sorted_sort_key)
  then show ?thesis by (simp add: py_sort_reverse_def sorted_map)
qed

lemma py_sort_reverse_stable:
  "filter (\<lambda>x. f x = k) (py_sort_reverse f xs) = filter (\<lambda>x. f x = k) xs"
  using sort_key_stable [of "\<lambda>x. - f x" "- k" xs] by (simp add: py_sort_reverse_def)

lemma filter_take_prefix: "\<exists>n. filter P (take m xs) = take n (filter P xs)"
proof -
  have "filter P xs = filter P (take m xs) @ filter P (drop m xs)"
    by (metis append_take_drop_id filter_append)
  then have "take (length (filter P (take m xs))) (filter P xs) = filter P (take m xs)"
    by simp
  then show ?thesis by metis
qed

lemma top_results_sorted:
  "sorted_wrt (\<lambda>a b. similarity b \<le> similarity a) (top_results m sims)"
proof -
  obtain n where "top_results m sims = take n (py_sort_reverse similarity sims)"
    using py_slice_upto_take [of m "py_sort_reverse similarity sims"]
    by (auto simp: top_results_def)
  then show ?thesis
    using sorted_py_sort_reverse [of similarity sims] by (simp add: sorted_wrt_take)
qed

lemma top_results_stable:
  "\<exists>n. filter (\<lambda>x. similarity x = k) (top_results m sims) =
        take n (filter (\<lambda>x. similarity x = k) sims)"
proof -
  obtain j where "top_results m sims = take j (py_sort_reverse similarity sims)"
    using py_slice_upto_take [of m "py_sort_reverse similarity sims"]
    by (auto simp: top_results_def)
  then show ?thesis
    using filter_take_prefix [of "\<lambda>x. similarity x = k" j "py_sort_reverse similarity sims"]
    by (simp add: py_sort_reverse_stable)
qed

lemma set_py_sort_reverse: "set (py_sort_reverse f xs) = set xs"
  by (simp add: py_sort_reverse_def)

lemma length_py_sort_reverse: "length (py_sort_reverse f xs) = length xs"
  by (simp add: py_sort_reverse_def)

lemma top_results_subset: "set (top_results m sims) \<subseteq> set sims"
proof -
  obtain n where "top_results m sims = take n (py_sort_reverse similarity sims)"
    using py_slice_upto_take [of m "py_sort_reverse similarity sims"]
    by (auto simp: top_results_def)
  then show ?thesis
    using set_take_subset [of n "py_sort_reverse similarity sims"]
    by (simp add: set_py_sort_reverse)
qed

lemma top_results_length:
  "length (top_results m sims) \<le> length sims \<and>
   (0 \<le> m \<longrightarrow> int (length (top_results m sims)) \<le> m)"
  by (auto simp: top_results_def py_slice_upto_def length_py_sort_reverse)

lemma top_results_empty [simp]: "top_results m [] = []"
  by (simp add: top_results_def py_slice_upto_def py_sort_reverse_def)

lemma similarity_search_run:
  "score_candidates e calls search_text t notes = (Inr cleared, calls') \<Longrightarrow>
   similarity_search e calls search_text t m notes = (Inr (top_results m cleared), calls')"
  by (simp add: similarity_search_def)

lemma similarity_search_InrD:
  assumes "similarity_search e calls search_text t m notes = (Inr results, calls')"
  shows "\<exists>cleared. score_candidates e calls search_text t notes = (Inr cleared, calls') \<and>
           results = top_results m cleared"
proof -
  obtain r c where s: "score_candidates e calls search_text t notes = (r, c)"
    by (cases "score_candidates e calls search_text t notes") auto
  from assms s show ?thesis
    by (cases r) (auto simp: similarity_search_def)
qed

lemma demo_combined:
  "combined_text_of (demo_note 1 ''apple pie'' ''sweet'') = ''apple pie sweet''"
  "combined_text_of (demo_note 2 ''banana bread'' ''  '') = ''banana bread''"
  "combined_text_of (demo_note 3 ''apple tart'' []) = ''apple tart''"
  "combined_text_of (demo_note 4 '' '' []) = []"
  by (simp_all add: combined_text_of_def demo_note_def py_strip_def py_isspace_def)

lemma demo_strip:
  "py_strip ''apple pie sweet'' \<noteq> []" "py_strip ''banana bread'' \<noteq> []"
  "py_strip ''apple tart'' \<noteq> []" "py_strip [] = []"
  by (simp_all add: py_strip_def py_isspace_def)

lemma demo_embed:
  "get_text_embedding demo_env c text = (Inr (demo_embedding text), c @ [Embeddings text])"
  by (simp add: get_text_embedding_def demo_env_def)

lemma demo_cosine:
  "cosine_similarity [1, 0, 0] [1, 0, 0] = Inr (Float 1)"
  "cosine_similarity [1, 0, 0] [0, 1, 0] = Inr (Float 0)"
  "cosine_similarity [0, 0, 1] [1, 0, 0] = Inr (Float 0)"
  "cosine_similarity [0, 0, 1] [0, 1, 0] = Inr (Float 0)"
  by (simp_all add: cosine_similarity_def norm2_def dot_def)

lemma demo_embedding_values:
  "demo_embedding ''apple dessert'' = [1, 0, 0]"
  "demo_embedding ''car engine'' = [0, 0, 1]"
  "demo_embedding ''apple pie sweet'' = [1, 0, 0]"
  "demo_embedding ''banana bread'' = [0, 1, 0]"
  "demo_embedding ''apple tart'' = [1, 0, 0]"
  by (simp_all add: demo_embedding_def)

lemma demo_score_candidates:
  "score_candidates demo_env [] ''apple dessert'' 0 demo_notes =
     (Inr [pie_item, bread_item, tart_item], demo_search_calls)"
  by (simp add: score_candidates_def score_note_def Let_def demo_embed demo_embedding_values
        demo_cosine demo_combined demo_strip demo_notes_def pie_item_def bread_item_def
        tart_item_def demo_search_calls_def)

lemma demo_top_results: "top_results 2 [pie_item, bread_item, tart_item] = [pie_item, tart_item]"
  by (simp add: top_results_def py_slice_upto_def py_sort_reverse_def pie_item_def
        bread_item_def tart_item_def)

section \<open>Ranking\<close>

text \<open>
  C5. Let \<open>cleared\<close> be the list the loop builds: the candidates that cleared the
  threshold, in the order the store returned them. The search returns
  \<open>top_results max_results cleared\<close>; this list is in non-increasing order of
  similarity, and for every score the results with that score are an initial part of
  the candidates with that score in retrieval order, so ties keep their retrieval
  order. The result is a function of its inputs.
\<close>

theorem search_results_sorted_stable:
  assumes "score_candidates e calls search_text t cands = (Inr cleared, calls')"
  shows "similarity_search e calls search_text t m cands =
           (Inr (top_results m cleared), calls') \<and>
         sorted_wrt (\<lambda>a b. similarity b \<le> similarity a) (top_results m cleared) \<and>
         (\<forall>k. \<exists>n. filter (\<lambda>x. similarity x = k) (top_results m cleared) =
                  take n (filter (\<lambda>x. similarity x = k) cleared)) \<and>
         subseq (map (\<lambda>x. Some (item_note x)) cleared) cands"
  using similarity_search_run [OF assms] top_results_sorted top_results_stable
    score_candidates_Inr [OF assms]
  by blast

theorem search_results_sorted_stable_witness:
  "score_candidates demo_env [] ''apple dessert'' 0 demo_notes =
     (Inr [pie_item, bread_item, tart_item], demo_search_calls) \<and>
   similarity_search demo_env [] ''apple dessert'' 0 2 demo_notes =
     (Inr [pie_item, tart_item], demo_search_calls) \<and>
   sorted_wrt (\<lambda>a b. similarity b \<le> similarity a) [pie_item, tart_item] \<and>
   (\<exists>n. filter (\<lambda>x. similarity x = 1) [pie_item, tart_item] =
          take n (filter (\<lambda>x. similarity x = 1) [pie_item, bread_item, tart_item]))"
  using search_results_sorted_stable [OF demo_score_candidates, of 2] demo_score_candidates
  by (simp only: demo_top_results)

text \<open>
  C9. With \<open>max_results\<close> at least 1 (the tool accepts 1 to 50), the search returns
  exactly \<open>min max_results (length cleared)\<close> results, where \<open>cleared\<close> is the list of
  candidates whose score cleared the threshold: never more than \<open>max_results\<close> and
  never more than the candidates that cleared (each of which has a score of at least
  the threshold and comes from a different fetched note).
\<close>

theorem search_result_count_bounded:
  assumes "score_candidates e calls search_text t cands = (Inr cleared, calls')"
    and "1 \<le> m"
  shows "similarity_search e calls search_text t m cands =
           (Inr (top_results m cleared), calls') \<and>
         int (length (top_results m cleared)) \<le> m \<and>
         length (top_results m cleared) \<le> length cleared \<and>
         length (top_results m cleared) = min (nat m) (length cleared) \<and>
         (\<forall>x\<in>set cleared. t \<le> similarity x) \<and>
         length cleared \<le> length cands"
proof -
  have "length (top_results m cleared) = min (nat m) (length cleared)"
    using assms(2) by (simp add: top_results_def py_slice_upto_def length_py_sort_reverse min.commute)
  moreover from score_candidates_Inr [OF assms(1)]
  have "subseq (map (\<lambda>x. Some (item_note x)) cleared) cands"
    "\<forall>x\<in>set cleared. t \<le> similarity x" by auto
  moreover from this(1) have "length cleared \<le> length cands"
    using list_emb_length by fastforce
  ultimately show ?thesis
    using similarity_search_run [OF assms(1)] top_results_length [of m cleared] assms(2)
    by simp
qed

theorem search_result_count_bounded_witness:
  "score_candidates demo_env [] ''apple dessert'' 0 demo_notes =
     (Inr [pie_item, bread_item, tart_item], demo_search_calls) \<and>
   (1::int) \<le> 2 \<and>
   similarity_search demo_env [] ''apple dessert'' 0 2 demo_notes =
     (Inr [pie_item, tart_item], demo_search_calls) \<and>
   int (length [pie_item, tart_item]) \<le> 2 \<and>
   length [pie_item, tart_item] \<le> length [pie_item, bread_item, tart_item]"
proof -
  have m: "(1::int) \<le> 2" by simp
  from search_result_count_bounded [OF demo_score_candidates m] demo_score_candidates
  show ?thesis by (simp only: demo_top_results) simp
qed

section \<open>The threshold\<close>

lemma find_similar_notes_run:
  assumes "truthy (OPENAI_API_KEY e)"
    and "findNotes e calls (deck_query deck_name) = Response 200 er ids"
    and "\<not> truthy er" and "ids \<noteq> []"
    and "notesInfo e (calls @ [FindNotes (deck_query deck_name)]) (map JInt ids) =
           Response 200 er2 fetched"
    and "\<not> truthy er2"
    and "similarity_search e (calls @ [FindNotes (deck_query deck_name), NotesInfo (map JInt ids)])
           search_text t m fetched = (Inr results, calls')"
  shows "find_similar_notes e calls deck_name search_text t m =
           (if results = [] then Success (NoSimilar t search_text deck_name)
            else Success (Found search_text (length results) t deck_name
                            (map format_note results)),
            calls')"
  using assms by (simp add: find_similar_notes_def)

lemma score_note_at_threshold:
  assumes "py_strip (combined_text_of n) \<noteq> []"
    and "get_text_embedding e c (combined_text_of n) = (Inr v, c1)"
    and "cosine_similarity q v = Inr (Float t)"
  shows "score_note e q t n c =
           (Some \<lparr> item_note = n, similarity = t, combined_text = combined_text_of n \<rparr>, c1)"
  using assms by (simp add: score_note_def)

text \<open>
  The score shown in a formatted note is the similarity rounded to four decimals: a
  similarity of 0.70004, which clears a threshold of 0.70002, is shown as 0.7.
\<close>

lemma reported_score_is_rounded:
  "similarity_score
     (format_note \<lparr> item_note = n, similarity = 0.70004, combined_text = txt \<rparr>) = 0.7"
proof -
  have "\<lfloor>(0.70004::real) * 10000\<rfloor> = 7000" by (simp add: floor_eq_iff)
  then show ?thesis by (simp add: format_note_def py_round4_def Let_def)
qed

text \<open>
  C6. In a call that reaches the ranking (the key is set, the deck has notes, the store
  returns them and the search text is embedded), let \<open>cleared\<close> be the candidates that
  the loop kept. Every result of the search has a similarity of at least the threshold,
  and a candidate whose score equals the threshold is kept (the comparison is
  inclusive). The call ends in a success result whose \<open>found_count\<close> is the number of
  results and whose notes are the formatted results; when no candidate cleared the
  threshold this is the answer with \<open>found_count\<close> 0 and an empty \<open>notes\<close> list, not an
  error.
\<close>

theorem results_clear_threshold:
  assumes "truthy (OPENAI_API_KEY e)"
    and "findNotes e calls (deck_query deck_name) = Response 200 er ids"
    and "\<not> truthy er" and "ids \<noteq> []"
    and "notesInfo e (calls @ [FindNotes (deck_query deck_name)]) (map JInt ids) =
           Response 200 er2 fetched"
    and "\<not> truthy er2"
    and "score_candidates e (calls @ [FindNotes (deck_query deck_name), NotesInfo (map JInt ids)])
           search_text t fetched = (Inr cleared, calls')"
  shows "(\<forall>x\<in>set (top_results m cleared). t \<le> similarity x) \<and>
         (\<exists>r. find_similar_notes e calls deck_name search_text t m = (Success r, calls') \<and>
              found_count r = length (top_results m cleared) \<and>
              result_notes r = map format_note (top_results m cleared)) \<and>
         (cleared = [] \<longrightarrow>
            find_similar_notes e calls deck_name search_text t m =
              (Success (NoSimilar t search_text deck_name), calls')) \<and>
         (py_strip (combined_text_of n) \<noteq> [] \<and>
          get_text_embedding e c (combined_text_of n) = (Inr v, c1) \<and>
          cosine_similarity q v = Inr (Float t') \<longrightarrow>
            score_note e q t' n c =
              (Some \<lparr> item_note = n, similarity = t', combined_text = combined_text_of n \<rparr>, c1))"
proof -
  note run = find_similar_notes_run [OF assms(1-6) similarity_search_run [OF assms(7)], of m]
  from score_candidates_Inr [OF assms(7)] top_results_subset [of m cleared]
  have a: "\<forall>x\<in>set (top_results m cleared). t \<le> similarity x" by blast
  have b: "\<exists>r. find_similar_notes e calls deck_name search_text t m = (Success r, calls') \<and>
              found_count r = length (top_results m cleared) \<and>
              result_notes r = map format_note (top_results m cleared)"
  proof (cases "top_results m cleared = []")
    case True
    with run show ?thesis by simp
  next
    case False
    with run show ?thesis by simp
  qed
  have c: "cleared = [] \<longrightarrow>
            find_similar_notes e calls deck_name search_text t m =
              (Success (NoSimilar t search_text deck_name), calls')"
    using run by simp
  from a b c score_note_at_threshold [of n e c v c1 q t'] show ?thesis by blast
qed

lemma car_score_candidates:
  "score_candidates demo_env ([] @ [FindNotes (deck_query ''Demo''), NotesInfo (map JInt [1, 2, 3, 4])])
     ''car engine'' 0.7 demo_notes = (Inr [], car_search_calls)"
  by (simp add: score_candidates_def score_note_def Let_def demo_embed demo_embedding_values
        demo_cosine demo_combined demo_strip demo_notes_def car_search_calls_def)

theorem results_clear_threshold_witness:
  "truthy (OPENAI_API_KEY demo_env) \<and>
   findNotes demo_env [] (deck_query ''Demo'') = Response 200 None [1, 2, 3, 4] \<and>
   notesInfo demo_env ([] @ [FindNotes (deck_query ''Demo'')]) (map JInt [1, 2, 3, 4]) =
     Response 200 None demo_notes \<and>
   score_candidates demo_env ([] @ [FindNotes (deck_query ''Demo''), NotesInfo (map JInt [1, 2, 3, 4])])
     ''car engine'' 0.7 demo_notes = (Inr [], car_search_calls) \<and>
   find_similar_notes demo_env [] ''Demo'' ''car engine'' 0.7 10 =
     (Success (NoSimilar 0.7 ''car engine'' ''Demo''), car_search_calls) \<and>
   score_note demo_env [1, 0, 0] 0 (demo_note 2 ''banana bread'' ''  '') [] =
     (Some \<lparr> item_note = demo_note 2 ''banana bread'' ''  '', similarity = 0,
             combined_text = combined_text_of (demo_note 2 ''banana bread'' ''  '') \<rparr>,
      [Embeddings ''banana bread''])"
proof -
  have k: "truthy (OPENAI_API_KEY demo_env)" by (simp add: demo_env_def truthy_def)
  have f: "findNotes demo_env [] (deck_query ''Demo'') = Response 200 None [1, 2, 3, 4]"
    by (simp add: demo_env_def)
  have n: "\<not> truthy None" by (simp add: truthy_def)
  have ne: "[1, 2, 3, 4] \<noteq> ([] :: int list)" by simp
  have i: "notesInfo demo_env ([] @ [FindNotes (deck_query ''Demo'')]) (map JInt [1, 2, 3, 4]) =
     Response 200 None demo_notes"
    by (simp add: demo_env_def demo_notes_def)
  have s: "py_strip (combined_text_of (demo_note 2 ''banana bread'' ''  '')) \<noteq> []"
    by (simp add: demo_combined demo_strip)
  have g: "get_text_embedding demo_env [] (combined_text_of (demo_note 2 ''banana bread'' ''  '')) =
      (Inr [0, 1, 0], [Embeddings ''banana bread''])"
    by (simp add: demo_combined demo_embed demo_embedding_values)
  have cs: "cosine_similarity [1, 0, 0] [0, 1, 0] = Inr (Float 0)" by (rule demo_cosine)
  note t = results_clear_threshold [OF k f n ne i n car_score_candidates,
      where m = 10 and n = "demo_note 2 ''banana bread'' ''  ''" and c = "[]"
        and v = "[0, 1, 0]" and ?c1.0 = "[Embeddings ''banana bread'']" and q = "[1, 0, 0]" and t' = 0]
  from t have "find_similar_notes demo_env [] ''Demo'' ''car engine'' 0.7 10 =
     (Success (NoSimilar 0.7 ''car engine'' ''Demo''), car_search_calls)" by blast
  moreover from t s g cs have
    "score_note demo_env [1, 0, 0] 0 (demo_note 2 ''banana bread'' ''  '') [] =
     (Some \<lparr> item_note = demo_note 2 ''banana bread'' ''  '', similarity = 0,
             combined_text = combined_text_of (demo_note 2 ''banana bread'' ''  '') \<rparr>,
      [Embeddings ''banana bread''])" by blast
  ultimately show ?thesis using k f i car_score_candidates by blast
qed

section \<open>Blank candidates\<close>

lemma collect_similarities_no_empty_note:
  "collect_similarities e q t cands calls sims = (Inr out, calls') \<Longrightarrow> None \<notin> set cands"
proof (induction cands arbitrary: calls sims)
  case Nil
  show ?case by simp
next
  case (Cons a cands)
  show ?case
  proof (cases a)
    case None
    with Cons.prems show ?thesis by simp
  next
    case (Some n)
    obtain r c1 where sc: "score_note e q t n calls = (r, c1)"
      by (cases "score_note e q t n calls") auto
    from Cons.prems Some sc have "\<exists>s. collect_similarities e q t cands c1 s = (Inr out, calls')"
      by (cases r) auto
    with Cons.IH Some show ?thesis by auto
  qed
qed

lemma score_candidates_no_empty_note:
  assumes "score_candidates e calls search_text t cands = (Inr cleared, calls')"
  shows "None \<notin> set cands"
proof -
  obtain r c1 where g: "get_text_embedding e calls search_text = (r, c1)"
    by (cases "get_text_embedding e calls search_text") auto
  from assms g obtain q where "r = Inr q"
    by (cases r) (simp_all add: score_candidates_def)
  with assms g have "collect_similarities e q t cands c1 [] = (Inr cleared, calls')"
    by (simp add: score_candidates_def)
  then show ?thesis by (rule collect_similarities_no_empty_note)
qed

text \<open>
  C7. (1) The text embedded for a note is the flattening rule of the specification
  applied to its fields: the values that are non-empty after trimming, in field order,
  separated by single spaces, without the field names. (2) When the search returns,
  every result carries the flattened text of its own note and that text is not blank:
  a note whose flattened text is empty or only whitespace is in no result, whatever
  the threshold. (3) The embedding requests of the search are one for the search text
  followed by one for each fetched note whose flattened text is not blank, in order;
  a blank note causes none.
\<close>

theorem flattened_text_and_blank_candidates:
  "combined_text_of n = spec_flatten (note_fields n) \<and>
   (similarity_search e calls search_text t m cands = (Inr results, calls') \<longrightarrow>
      None \<notin> set cands \<and>
      (\<forall>x\<in>set results. combined_text x = combined_text_of (item_note x) \<and>
          py_strip (combined_text_of (item_note x)) \<noteq> []) \<and>
      calls' = calls @ Embeddings search_text #
                 map Embeddings
                   (filter (\<lambda>txt. py_strip txt \<noteq> [])
                      (map (\<lambda>c. combined_text_of (the c)) cands)))"
proof (intro conjI impI)
  show "combined_text_of n = spec_flatten (note_fields n)"
    by (rule combined_text_is_spec_flatten)
next
  assume s: "similarity_search e calls search_text t m cands = (Inr results, calls')"
  from similarity_search_InrD [OF s] obtain cleared where
    c: "score_candidates e calls search_text t cands = (Inr cleared, calls')"
       "results = top_results m cleared"
    by blast
  show "None \<notin> set cands" by (rule score_candidates_no_empty_note [OF c(1)])
  show "\<forall>x\<in>set results. combined_text x = combined_text_of (item_note x) \<and>
          py_strip (combined_text_of (item_note x)) \<noteq> []"
    using score_candidates_Inr [OF c(1)] top_results_subset [of m cleared] c(2) by blast
  show "calls' = calls @ Embeddings search_text #
                 map Embeddings
                   (filter (\<lambda>txt. py_strip txt \<noteq> [])
                      (map (\<lambda>c. combined_text_of (the c)) cands))"
    using score_candidates_Inr [OF c(1)] by blast
qed

lemma demo_similarity_search:
  "similarity_search demo_env [] ''apple dessert'' 0 2 demo_notes =
     (Inr [pie_item, tart_item], demo_search_calls)"
  using similarity_search_run [OF demo_score_candidates, of 2]
  by (simp only: demo_top_results)

theorem flattened_text_and_blank_candidates_witness:
  "combined_text_of (demo_note 2 ''banana bread'' ''  '') =
     spec_flatten [(''Front'', ''banana bread''), (''Back'', ''  '')] \<and>
   spec_flatten [(''Front'', ''banana bread''), (''Back'', ''  '')] = ''banana bread'' \<and>
   similarity_search demo_env [] ''apple dessert'' 0 2 demo_notes =
     (Inr [pie_item, tart_item], demo_search_calls) \<and>
   Some (demo_note 4 '' '' []) \<in> set demo_notes \<and>
   py_strip (combined_text_of (demo_note 4 '' '' [])) = [] \<and>
   demo_search_calls =
     [] @ Embeddings ''apple dessert'' #
       map Embeddings
         (filter (\<lambda>txt. py_strip txt \<noteq> [])
            (map (\<lambda>c. combined_text_of (the c)) demo_notes)) \<and>
   demo_search_calls =
     [Embeddings ''apple dessert'', Embeddings ''apple pie sweet'',
      Embeddings ''banana bread'', Embeddings ''apple tart'']"
proof -
  note t = flattened_text_and_blank_candidates
    [where n = "demo_note 2 ''banana bread'' ''  ''" and e = demo_env and calls = "[]"
       and search_text = "''apple dessert''" and t = 0 and m = 2 and cands = demo_notes
       and results = "[pie_item, tart_item]" and calls' = demo_search_calls]
  from t have a: "combined_text_of (demo_note 2 ''banana bread'' ''  '') =
     spec_flatten [(''Front'', ''banana bread''), (''Back'', ''  '')]"
    by (simp add: demo_note_def)
  from a have b: "spec_flatten [(''Front'', ''banana bread''), (''Back'', ''  '')] = ''banana bread''"
    by (simp add: demo_combined)
  from t demo_similarity_search have c: "demo_search_calls =
     [] @ Embeddings ''apple dessert'' #
       map Embeddings
         (filter (\<lambda>txt. py_strip txt \<noteq> [])
            (map (\<lambda>c. combined_text_of (the c)) demo_notes))"
    by blast
  have d: "Some (demo_note 4 '' '' []) \<in> set demo_notes" by (simp add: demo_notes_def)
  have e: "py_strip (combined_text_of (demo_note 4 '' '' [])) = []"
    by (simp add: demo_combined demo_strip)
  from a b c d e demo_similarity_search show ?thesis
    by (simp only: demo_search_calls_def simp_thms)
qed

end
